theory Spec2Isabelle
  imports Main
begin

section \<open>Python values used by the listing generator\<close>

text \<open>
  The development embeds \<^verbatim>\<open>lambda_art-srv-enterprise-s3-get-index-html-gen.py\<close>.
  A Python \<^verbatim>\<open>str\<close> is a \<^typ>\<open>string\<close> whose characters are the code points below 256;
  a Python \<^verbatim>\<open>int\<close> is an \<^typ>\<open>int\<close>. An exception is a value of \<open>error\<close>, and a function
  that may raise returns \<open>error + 'a\<close> with \<open>Inl\<close> for the exception.
\<close>

datatype error =
    ValueError
  | AttributeError
  | OverflowError
  | IndexError
  | ClientError string

subsection \<open>\<^verbatim>\<open>str(n)\<close> for integers\<close>

fun digits10 :: "nat \<Rightarrow> string" where
  "digits10 n =
     (if n < 10 then [''0123456789'' ! n]
      else digits10 (n div 10) @ [''0123456789'' ! (n mod 10)])"

declare digits10.simps [simp del]

definition str_int :: "int \<Rightarrow> string" where
  "str_int i = (if i < 0 then CHR ''-'' # digits10 (nat (- i)) else digits10 (nat i))"

subsection \<open>\<^verbatim>\<open>int(a / b)\<close>: true division in binary64, then truncation\<close>

text \<open>
  In Python 3 \<^verbatim>\<open>a / b\<close> on two integers is the correctly rounded binary64 quotient
  (round to nearest, ties to even; \<^verbatim>\<open>OverflowError\<close> when the rounded quotient does not fit).
  Every divisor of \<^verbatim>\<open>UNITS_MAPPING\<close> is a power of two, so the rounded quotient is the
  dividend rounded to 53 significant bits, scaled; \<^verbatim>\<open>int(...)\<close> then truncates towards zero.
\<close>

fun bit_length :: "nat \<Rightarrow> nat" where
  "bit_length n = (if n = 0 then 0 else Suc (bit_length (n div 2)))"

declare bit_length.simps [simp del]

definition round53 :: "nat \<Rightarrow> nat" where
  "round53 n =
     (if n < 2 ^ 53 then n
      else let sh = bit_length n - 53;
               q = n div 2 ^ sh;
               r = n mod 2 ^ sh;
               h = 2 ^ (sh - 1)
           in (if h < r \<or> (r = h \<and> odd q) then q + 1 else q) * 2 ^ sh)"

definition int_truediv :: "int \<Rightarrow> int \<Rightarrow> error + int" where
  \<comment> \<open>\<^verbatim>\<open>int(a / f)\<close> for a divisor \<open>f\<close> that is a positive power of two.\<close>
  "int_truediv a f =
     (let m = round53 (nat \<bar>a\<bar>)
      in if 2 ^ 1024 * nat f \<le> m then Inl OverflowError
         else Inr (sgn a * int (m div nat f)))"

subsection \<open>\<^verbatim>\<open>pretty_size\<close>\<close>

text \<open>A suffix of the table is one string, or the pair (singular, plural) of the last row.\<close>

type_synonym unit_suffix = "string + string \<times> string"

definition UNITS_MAPPING :: "(int \<times> unit_suffix) list" where
  "UNITS_MAPPING =
     [(1024 ^ 5, Inl '' PB''),
      (1024 ^ 4, Inl '' TB''),
      (1024 ^ 3, Inl '' GB''),
      (1024 ^ 2, Inl '' MB''),
      (1024 ^ 1, Inl '' KB''),
      (1024 ^ 0, Inr ('' byte'', '' bytes''))]"

text \<open>
  \<^verbatim>\<open>for factor, suffix in units: if bytes >= factor: break\<close>. The loop variables stay bound
  to the row at which the loop broke, or to the last row when it never broke.
\<close>

fun unit_loop :: "int \<Rightarrow> int \<times> unit_suffix \<Rightarrow> (int \<times> unit_suffix) list \<Rightarrow> int \<times> unit_suffix" where
  "unit_loop b u [] = u"
| "unit_loop b u (v # vs) = (if fst v \<le> b then v else unit_loop b v vs)"

definition pretty_size :: "int \<Rightarrow> error + string" where
  \<comment> \<open>\<^verbatim>\<open>units\<close> always takes its default, \<^verbatim>\<open>UNITS_MAPPING\<close>.\<close>
  "pretty_size b =
     (let (factor, suffix) = unit_loop b (hd UNITS_MAPPING) UNITS_MAPPING
      in case int_truediv b factor of
           Inl e \<Rightarrow> Inl e
         | Inr amount \<Rightarrow>
             Inr (str_int amount @
                  (case suffix of
                     Inl s \<Rightarrow> s
                   | Inr (singular, multiple) \<Rightarrow> if amount = 1 then singular else multiple)))"

text \<open>
  The size format as the specification words it: the largest unit not above the count,
  the floor of the quotient, and the singular only for an amount of one byte.
\<close>

definition spec_pretty_size :: "int \<Rightarrow> string" where
  "spec_pretty_size b =
     (if 1024 ^ 5 \<le> b then str_int (b div 1024 ^ 5) @ '' PB''
      else if 1024 ^ 4 \<le> b then str_int (b div 1024 ^ 4) @ '' TB''
      else if 1024 ^ 3 \<le> b then str_int (b div 1024 ^ 3) @ '' GB''
      else if 1024 ^ 2 \<le> b then str_int (b div 1024 ^ 2) @ '' MB''
      else if 1024 ^ 1 \<le> b then str_int (b div 1024 ^ 1) @ '' KB''
      else str_int (b div 1024 ^ 0) @ (if b div 1024 ^ 0 = 1 then '' byte'' else '' bytes''))"

section \<open>Library functions the handler calls\<close>

subsection \<open>\<^verbatim>\<open>str\<close> methods\<close>

definition startswith :: "string \<Rightarrow> string \<Rightarrow> bool" where
  "startswith s p = (take (length p) s = p)"

definition endswith :: "string \<Rightarrow> string \<Rightarrow> bool" where
  "endswith s p = (length p \<le> length s \<and> drop (length s - length p) s = p)"

text \<open>\<^verbatim>\<open>sub in s\<close>: \<open>sub\<close> occurs in \<open>s\<close> as a contiguous substring.\<close>

fun str_in :: "string \<Rightarrow> string \<Rightarrow> bool" where
  "str_in sub [] = (sub = [])"
| "str_in sub (c # cs) = (startswith (c # cs) sub \<or> str_in sub cs)"

definition lstrip :: "char \<Rightarrow> string \<Rightarrow> string" where
  "lstrip c s = dropWhile (\<lambda>x. x = c) s"

definition rstrip :: "char \<Rightarrow> string \<Rightarrow> string" where
  "rstrip c s = rev (dropWhile (\<lambda>x. x = c) (rev s))"

text \<open>\<^verbatim>\<open>s.split(c)\<close>: the pieces between the occurrences of \<open>c\<close>; never the empty list.\<close>

fun split_on :: "char \<Rightarrow> string \<Rightarrow> string list" where
  "split_on c [] = [[]]"
| "split_on c (x # xs) =
     (if x = c then [] # split_on c xs
      else (case split_on c xs of
              [] \<Rightarrow> [[x]]
            | p # ps \<Rightarrow> (x # p) # ps))"

definition join :: "string \<Rightarrow> string list \<Rightarrow> string" where
  "join sep xs = (case xs of [] \<Rightarrow> [] | y # ys \<Rightarrow> y @ concat (map (\<lambda>z. sep @ z) ys))"

text \<open>\<^verbatim>\<open>s.rsplit(c, 1)[0]\<close>: what precedes the last \<open>c\<close>, or all of \<open>s\<close> when it has none.\<close>

definition rsplit1_head :: "char \<Rightarrow> string \<Rightarrow> string" where
  "rsplit1_head c s =
     (if c \<in> set s then rev (tl (dropWhile (\<lambda>x. x \<noteq> c) (rev s))) else s)"

text \<open>\<^verbatim>\<open>s.lower()\<close> on code points below 256: A to Z, and the Latin-1 capitals but U+00D7.\<close>

definition lower_char :: "char \<Rightarrow> char" where
  "lower_char c =
     (let n = (of_char c :: nat)
      in if (65 \<le> n \<and> n \<le> 90) \<or> (192 \<le> n \<and> n \<le> 222 \<and> n \<noteq> 215) then char_of (n + 32) else c)"

definition lower :: "string \<Rightarrow> string" where
  "lower s = map lower_char s"

subsection \<open>\<^verbatim>\<open>pathlib.Path\<close> (a \<^verbatim>\<open>PurePosixPath\<close>: the function runs on Linux)\<close>

text \<open>
  A path is its root (empty, one separator, or two for exactly two leading separators) and
  its components; empty components and single dots are dropped when the path is parsed.
  A path object is always truthy.
\<close>

datatype path = PurePath (root: string) (parts: "string list")

definition Path :: "string \<Rightarrow> path" where
  "Path s =
     (let stripped = lstrip CHR ''/'' s
      in PurePath
           (if startswith s ''/'' then (if length s - length stripped = 2 then ''//'' else ''/'')
            else [])
           (filter (\<lambda>x. x \<noteq> [] \<and> x \<noteq> ''.'') (split_on CHR ''/'' stripped)))"

definition path_str :: "path \<Rightarrow> string" where
  \<comment> \<open>\<^verbatim>\<open>str(p)\<close>\<close>
  "path_str p = (if root p = [] \<and> parts p = [] then ''.'' else root p @ join ''/'' (parts p))"

definition path_name :: "path \<Rightarrow> string" where
  \<comment> \<open>\<^verbatim>\<open>p.name\<close>\<close>
  "path_name p = (if parts p = [] then [] else last (parts p))"

text \<open>\<^verbatim>\<open>os.path.join(a, '')\<close> of \<^verbatim>\<open>posixpath\<close>.\<close>

definition join_empty :: "string \<Rightarrow> string" where
  "join_empty a = (if a = [] \<or> endswith a ''/'' then a else a @ ''/'')"

subsection \<open>\<^verbatim>\<open>urllib.parse\<close>\<close>

definition is_hex :: "char \<Rightarrow> bool" where
  "is_hex c = (c \<in> set ''0123456789abcdefABCDEF'')"

definition hexval :: "char \<Rightarrow> nat" where
  "hexval c =
     (let n = (of_char c :: nat)
      in if n \<le> 57 then n - 48 else if n \<le> 70 then n - 55 else n - 87)"

text \<open>
  \<^verbatim>\<open>unquote\<close> where every escape stands for an ASCII byte. Python decodes the bytes of the
  escapes from \<^verbatim>\<open>%80\<close> on as UTF-8, which leaves the alphabet of this model; such an
  escape is kept as written here. The handler takes its decoder from the environment, so
  what is proved of the handler in general holds for every decoder.
\<close>

fun unquote_ascii :: "string \<Rightarrow> string" where
  "unquote_ascii (c # h1 # h2 # cs) =
     (if c = CHR ''%'' \<and> is_hex h1 \<and> is_hex h2 \<and> hexval h1 < 8
      then char_of (16 * hexval h1 + hexval h2) # unquote_ascii cs
      else c # unquote_ascii (h1 # h2 # cs))"
| "unquote_ascii cs = cs"

text \<open>
  \<^verbatim>\<open>quote(s)\<close> with the default \<^verbatim>\<open>safe='/'\<close>: the UTF-8 bytes of \<open>s\<close>, each kept when it is
  a letter, a digit or one of \<^verbatim>\<open>_.-~/\<close>, and written \<^verbatim>\<open>%XX\<close> otherwise.
\<close>

definition pct :: "nat \<Rightarrow> string" where
  "pct b = [CHR ''%'', ''0123456789ABCDEF'' ! (b div 16), ''0123456789ABCDEF'' ! (b mod 16)]"

definition always_safe :: "char \<Rightarrow> bool" where
  "always_safe c =
     (let n = (of_char c :: nat)
      in (65 \<le> n \<and> n \<le> 90) \<or> (97 \<le> n \<and> n \<le> 122) \<or> (48 \<le> n \<and> n \<le> 57)
         \<or> c \<in> set ''_.-~'')"

definition quote_char :: "char \<Rightarrow> string" where
  "quote_char c =
     (let n = (of_char c :: nat)
      in if always_safe c \<or> c = CHR ''/'' then [c]
         else if n < 128 then pct n
         else pct (192 + n div 64) @ pct (128 + n mod 64))"

definition quote :: "string \<Rightarrow> string" where
  "quote s = concat (map quote_char s)"

subsection \<open>\<^verbatim>\<open>int(s)\<close> on a string\<close>

text \<open>
  Base ten: whitespace on both sides is dropped, then an optional sign, then digits, with
  single underscores allowed between digits. \<open>max_digits\<close> is the interpreter's limit on
  the number of digits (\<^verbatim>\<open>sys.get_int_max_str_digits()\<close>; 0 means no limit, and an
  interpreter from before the limit was introduced behaves as with 0).
\<close>

definition is_space :: "char \<Rightarrow> bool" where
  "is_space c = ((of_char c :: nat) \<in> {9, 10, 11, 12, 13, 32, 133, 160})"

definition is_digit :: "char \<Rightarrow> bool" where
  "is_digit c = (48 \<le> (of_char c :: nat) \<and> (of_char c :: nat) \<le> 57)"

text \<open>The digits after the sign: \<open>None\<close> when malformed, else the digits without underscores.\<close>

fun digit_groups :: "string \<Rightarrow> string option" where
  "digit_groups [] = None"
| "digit_groups [d] = (if is_digit d then Some [d] else None)"
| "digit_groups (d # u # cs) =
     (if \<not> is_digit d then None
      else if u = CHR ''_'' then map_option (\<lambda>r. d # r) (digit_groups cs)
      else map_option (\<lambda>r. d # r) (digit_groups (u # cs)))"

definition digits_value :: "string \<Rightarrow> nat" where
  "digits_value ds = foldl (\<lambda>acc d. 10 * acc + ((of_char d :: nat) - 48)) 0 ds"

definition py_int :: "nat \<Rightarrow> string \<Rightarrow> error + int" where
  "py_int max_digits s =
     (let t = rev (dropWhile is_space (rev (dropWhile is_space s)));
          (neg, body) = (case t of
                           c # cs \<Rightarrow> if c = CHR ''-'' then (True, cs)
                                     else if c = CHR ''+'' then (False, cs)
                                     else (False, t)
                         | [] \<Rightarrow> (False, t))
      in case digit_groups body of
           None \<Rightarrow> Inl ValueError
         | Some ds \<Rightarrow>
             if 0 < max_digits \<and> max_digits < length ds then Inl ValueError
             else Inr (if neg then - int (digits_value ds) else int (digits_value ds)))"

text \<open>
  \<^verbatim>\<open>parse_qsl\<close> and \<^verbatim>\<open>parse_qs\<close> with their defaults (as from Python 3.10, where \<^verbatim>\<open>;\<close> no
  longer separates fields): fields are separated by \<^verbatim>\<open>&\<close>, a field
  is split at its first \<^verbatim>\<open>=\<close>, a field with an empty value is dropped, \<^verbatim>\<open>+\<close> stands for a
  space, and name and value are percent-decoded. The result maps a name to its values in
  order.
\<close>

definition partition_eq :: "string \<Rightarrow> string \<times> string" where
  "partition_eq s =
     (takeWhile (\<lambda>x. x \<noteq> CHR ''='') s, drop 1 (dropWhile (\<lambda>x. x \<noteq> CHR ''='') s))"

definition unquote_plus :: "(string \<Rightarrow> string) \<Rightarrow> string \<Rightarrow> string" where
  "unquote_plus unq s = unq (map (\<lambda>c. if c = CHR ''+'' then CHR '' '' else c) s)"

definition parse_qsl :: "(string \<Rightarrow> string) \<Rightarrow> string \<Rightarrow> (string \<times> string) list" where
  "parse_qsl unq qs =
     (if qs = [] then []
      else concat (map (\<lambda>name_value.
             if name_value = [] then []
             else (let (name, val) = partition_eq name_value
                   in if val = [] then [] else [(unquote_plus unq name, unquote_plus unq val)]))
           (split_on CHR ''&'' qs)))"

definition parse_qs :: "(string \<Rightarrow> string) \<Rightarrow> string \<Rightarrow> (string \<rightharpoonup> string list)" where
  "parse_qs unq qs =
     (\<lambda>k. case map snd (filter (\<lambda>p. fst p = k) (parse_qsl unq qs)) of
             [] \<Rightarrow> None
           | v # vs \<Rightarrow> Some (v # vs))"


section \<open>The object store and the enumerator\<close>

text \<open>
  One page of \<^verbatim>\<open>list_objects_v2\<close>. A missing \<^verbatim>\<open>CommonPrefixes\<close> or \<^verbatim>\<open>Contents\<close> is the empty
  list (the code reads both with \<^verbatim>\<open>.get(..., [])\<close>); a common prefix is its \<^verbatim>\<open>Prefix\<close> string.
  \<open>'t\<close> is the type of timestamps.
\<close>

record 't s3_object =
  Key :: string
  LastModified :: "'t option"
  Size :: "int option"

record 't s3_result =
  CommonPrefixes :: "string list"
  Contents :: "'t s3_object list"
  IsTruncated :: bool
  NextContinuationToken :: "string option"

text \<open>
  The client: \<^verbatim>\<open>list_objects_v2(Bucket, Prefix, Delimiter, ContinuationToken)\<close>, which returns
  a page or raises.
\<close>

type_synonym 't s3_client =
  "string \<Rightarrow> string \<Rightarrow> string \<Rightarrow> string option \<Rightarrow> error + 't s3_result"

record 't S3Path =
  is_dir :: bool
  last_modified :: "'t option"
  size_p :: int
  absolute :: string
  name :: string

definition S3Path_dir :: "string \<Rightarrow> 't S3Path" where
  \<comment> \<open>\<^verbatim>\<open>S3Path(True, entry)\<close> for a common prefix: no \<^verbatim>\<open>LastModified\<close>, no \<^verbatim>\<open>Size\<close>.\<close>
  "S3Path_dir prefix =
     \<lparr>is_dir = True, last_modified = None, size_p = 0,
      absolute = lstrip CHR ''/'' prefix,
      name = path_name (Path (lstrip CHR ''/'' prefix))\<rparr>"

definition S3Path_file :: "'t s3_object \<Rightarrow> 't S3Path" where
  \<comment> \<open>\<^verbatim>\<open>S3Path(False, entry)\<close> for an object.\<close>
  "S3Path_file obj =
     \<lparr>is_dir = False, last_modified = LastModified obj,
      size_p = (case Size obj of None \<Rightarrow> 0 | Some n \<Rightarrow> n),
      absolute = Key obj,
      name = path_name (Path (Key obj))\<rparr>"

definition is_file :: "'t S3Path \<Rightarrow> bool" where
  "is_file p = (\<not> is_dir p)"

definition is_symlink :: "'t S3Path \<Rightarrow> bool" where
  "is_symlink p = False"

text \<open>What the generator yields: a path object, or, as its last item, an exception.\<close>

datatype 't item = Yield "'t S3Path" | Raise error

definition s3_prefix :: "string \<Rightarrow> string" where
  \<comment> \<open>lines 56 to 60\<close>
  "s3_prefix dir_path =
     (let d = lstrip CHR ''/'' dir_path
      in if d \<notin> {[], ''.'', ''/''} then rstrip CHR ''/'' d @ ''/'' else [])"

definition continuation_key :: "'t s3_result option \<Rightarrow> string option" where
  \<comment> \<open>the token passed on: that of the previous page, when there is one and it is not empty\<close>
  "continuation_key last_result =
     (case last_result of
        None \<Rightarrow> None
      | Some r \<Rightarrow> (case NextContinuationToken r of
                    None \<Rightarrow> None
                  | Some t \<Rightarrow> if t = [] then None else Some t))"

definition page_items :: "string \<Rightarrow> 't s3_result \<Rightarrow> 't item list" where
  \<comment> \<open>the common prefixes, then the objects but the one whose key is the prefix itself\<close>
  "page_items prefix r =
     map (\<lambda>p. Yield (S3Path_dir p)) (CommonPrefixes r) @
     map (\<lambda>obj. Yield (S3Path_file obj)) (filter (\<lambda>obj. Key obj \<noteq> prefix) (Contents r))"

text \<open>
  The \<^verbatim>\<open>while\<close> loop of \<^verbatim>\<open>s3_list_dir\<close> (lines 62 to 92). \<open>last_result\<close> is \<^verbatim>\<open>s3_result\<close> (\<open>None\<close> for the initial
  empty dict). The fuel bounds the number of store calls; the result is the sequence of
  items the generator yields and whether the generator has finished within the fuel
  (a store that reports every page as truncated never lets it finish).
\<close>

fun s3_pages ::
  "nat \<Rightarrow> 't s3_client \<Rightarrow> string \<Rightarrow> string \<Rightarrow> 't s3_result option \<Rightarrow> 't item list \<times> bool" where
  "s3_pages fuel s3_conn bucket_name prefix last_result =
     (if (case last_result of None \<Rightarrow> False | Some r \<Rightarrow> \<not> IsTruncated r) then ([], True)
      else (case fuel of
              0 \<Rightarrow> ([], False)
            | Suc n \<Rightarrow>
                (case s3_conn bucket_name prefix ''/'' (continuation_key last_result) of
                   Inl e \<Rightarrow> ([Raise e], True)
                 | Inr r \<Rightarrow>
                     (let (items, finished) = s3_pages n s3_conn bucket_name prefix (Some r)
                      in (page_items prefix r @ items, finished)))))"

declare s3_pages.simps [simp del]

definition s3_list_dir :: "nat \<Rightarrow> 't s3_client \<Rightarrow> string \<Rightarrow> string \<Rightarrow> 't item list \<times> bool" where
  "s3_list_dir fuel s3_conn bucket_name dir_path =
     s3_pages fuel s3_conn bucket_name (s3_prefix dir_path) None"

section \<open>The renderer\<close>

text \<open>
  What the function takes from its surroundings: the percent-decoder, the two renderings
  of a timestamp (\<^verbatim>\<open>t.replace(microsecond=0).isoformat()\<close> and \<^verbatim>\<open>....strftime("%c")\<close>), \<^verbatim>\<open>os.name\<close>,
  the interpreter's digit limit, and the two static pieces of \<^verbatim>\<open>body_top\<close>: the style sheet
  and icons up to the heading (lines 122 to 366) and the table head with the parent-directory
  row (lines 366 to 391).
\<close>

record 't env =
  unquote :: "string \<Rightarrow> string"
  isoformat :: "'t \<Rightarrow> string"
  strftime_c :: "'t \<Rightarrow> string"
  os_name :: string
  int_max_str_digits :: nat
  page_head :: string
  page_table_head :: string

definition DEFAULT_OUTPUT_FILE :: string where
  "DEFAULT_OUTPUT_FILE = ''index.html''"

text \<open>
  The \<^verbatim>\<open>try\<close> block of the loop (lines 415 to 430): size and timestamp of a file, the defaults for a directory.
  The result is (\<^verbatim>\<open>size_bytes\<close>, \<^verbatim>\<open>size_pretty\<close>, \<^verbatim>\<open>last_modified_iso\<close>,
  \<^verbatim>\<open>last_modified_human_readable\<close>), or the exception raised.
\<close>

definition inspect_entry :: "'t env \<Rightarrow> 't S3Path \<Rightarrow> error + int \<times> string \<times> string \<times> string" where
  "inspect_entry env entry =
     (if is_file entry then
        (case pretty_size (size_p entry) of
           Inl e \<Rightarrow> Inl e
         | Inr size_pretty \<Rightarrow>
             (case last_modified entry of
                None \<Rightarrow> Inl AttributeError
              | Some t \<Rightarrow> Inr (size_p entry, size_pretty, isoformat env t, strftime_c env t)))
      else Inr (- 1, ''&mdash;'', [], ''-''))"

definition entry_type_path :: "'t env \<Rightarrow> 't S3Path \<Rightarrow> string \<times> string" where
  \<comment> \<open>(\<^verbatim>\<open>entry_type\<close>, \<^verbatim>\<open>entry_path\<close>), lines 432 to 449\<close>
  "entry_type_path env entry =
     (if is_dir entry \<and> \<not> is_symlink entry then
        (''folder'', if os_name env \<noteq> ''nt'' then join_empty (name entry) else name entry)
      else if is_dir entry \<and> is_symlink entry then (''folder-shortcut'', name entry)
      else if is_file entry \<and> is_symlink entry then (''file-shortcut'', name entry)
      else (''file'', name entry))"

text \<open>The row written for an entry (lines 451 to 464), the notice (line 466), the page end.\<close>

definition entry_row :: "'t env \<Rightarrow> 't S3Path \<Rightarrow> int \<times> string \<times> string \<times> string \<Rightarrow> string" where
  \<open>entry_row env entry info =
     (case info of (size_bytes, size_pretty, last_modified_iso, last_modified_human_readable) \<Rightarrow>
      (case entry_type_path env entry of (entry_type, entry_path) \<Rightarrow>
        ''\<newline>'' @
        ''        <tr class="file">\<newline>'' @
        ''            <td></td>\<newline>'' @
        ''            <td>\<newline>'' @
        ''                <a href="'' @ quote entry_path @ ''">\<newline>'' @
        ''                    <svg width="1.5em" height="1em" version="1.1" viewBox="0 0 265 323"><use xlink:href="#'' @
        entry_type @ ''"></use></svg>\<newline>'' @
        ''                    <span class="name">'' @ name entry @ ''</span>\<newline>'' @
        ''                </a>\<newline>'' @
        ''            </td>\<newline>'' @
        ''            <td data-order="'' @ str_int size_bytes @ ''">'' @ size_pretty @ ''</td>\<newline>'' @
        ''            <td class="hideable"><time datetime="'' @ last_modified_iso @ ''">'' @
        last_modified_human_readable @ ''</time></td>\<newline>'' @
        ''            <td class="hideable"></td>\<newline>'' @
        ''        </tr>\<newline>''))\<close>

definition truncated_notice :: "nat \<Rightarrow> string" where
  \<open>truncated_notice next_entry =
     ''<tr><td></td><td><b>Listing truncated...</b> <a href="?entry='' @ str_int (int next_entry) @
     ''">Next Page</a></td><td></td><td></td><td></td></tr>\<newline>''\<close>

definition page_foot :: string where
  \<open>page_foot =
     ''\<newline>'' @
     ''            </tbody>\<newline>'' @
     ''        </table>\<newline>'' @
     ''    </div>\<newline>'' @
     ''</main>\<newline>'' @
     ''</body>\<newline>'' @
     ''</html>''\<close>

text \<open>
  The state of the loop: \<^verbatim>\<open>body_top\<close>, the pieces written to \<^verbatim>\<open>index_file\<close> in order,
  \<^verbatim>\<open>entry_count\<close>, and what has been printed (the exception and the entry of each
  \<^verbatim>\<open>ERROR accessing file name\<close> line; nothing else is printed, \<^verbatim>\<open>VERBOSE\<close> being false and
  no entry being a symlink).
\<close>

record 't render_state =
  body_top :: string
  index_file :: "string list"
  entry_count :: nat
  printed :: "(error \<times> 't S3Path) list"

definition tell :: "string list \<Rightarrow> nat" where
  \<comment> \<open>\<^verbatim>\<open>index_file.tell()\<close>: the number of characters written so far\<close>
  "tell chunks = length (concat chunks)"

text \<open>
  The \<^verbatim>\<open>for\<close> loop of \<^verbatim>\<open>process_dir\<close> (lines 397 to 467) over the items the generator
  yields: a yielded exception is raised, an entry named \<^verbatim>\<open>index.html\<close> is passed over, every
  other entry is counted, and from the offset on its row is written unless reading its
  metadata raises; the loop breaks once more than 1000000 characters are written. \<open>finished\<close> tells
  whether the generator ends after the given items; when it does not and the loop asks for
  one more item, the result is \<open>None\<close> (the fuel was too small).
\<close>

fun render_entries ::
  "'t env \<Rightarrow> int \<Rightarrow> 't item list \<Rightarrow> bool \<Rightarrow> 't render_state \<Rightarrow> (error + 't render_state) option" where
  "render_entries env entry_offset [] finished st = (if finished then Some (Inr st) else None)"
| "render_entries env entry_offset (Raise e # rest) finished st = Some (Inl e)"
| "render_entries env entry_offset (Yield entry # rest) finished st =
     (if lower (name entry) = DEFAULT_OUTPUT_FILE
      then render_entries env entry_offset rest finished st
      else let st1 = st\<lparr>entry_count := entry_count st + 1\<rparr>
           in if int (entry_count st1) < entry_offset
              then render_entries env entry_offset rest finished st1
              else (case inspect_entry env entry of
                      Inl e \<Rightarrow>
                        render_entries env entry_offset rest finished
                          (st1\<lparr>printed := printed st1 @ [(e, entry)]\<rparr>)
                    | Inr info \<Rightarrow>
                        (let st2 = st1\<lparr>index_file := index_file st1 @ [entry_row env entry info]\<rparr>
                         in if 1000000 < tell (index_file st2)
                            then Some (Inr (st2\<lparr>body_top :=
                                   body_top st2 @ truncated_notice (entry_count st2 + 1)\<rparr>))
                            else render_entries env entry_offset rest finished st2)))"

definition initial_state :: "'t env \<Rightarrow> path \<Rightarrow> 't render_state" where
  "initial_state env path_top_dir =
     \<lparr>body_top = page_head env @ path_name path_top_dir @ page_table_head env,
      index_file = [], entry_count = 0, printed = []\<rparr>"

text \<open>
  \<^verbatim>\<open>process_dir\<close>. Its argument is a path object, which is truthy, so the early
  \<^verbatim>\<open>return None\<close> of line 116 is never taken. The result is the document and the count.
\<close>

definition process_dir ::
  "'t env \<Rightarrow> nat \<Rightarrow> 't s3_client \<Rightarrow> string \<Rightarrow> path \<Rightarrow> int \<Rightarrow> (error + string \<times> nat) option" where
  "process_dir env fuel s3_conn bucket_name path_top_dir entry_offset =
     (let generator = s3_list_dir fuel s3_conn bucket_name (path_str path_top_dir)
      in case render_entries env entry_offset (fst generator) (snd generator)
                (initial_state env path_top_dir) of
           None \<Rightarrow> None
         | Some (Inl e) \<Rightarrow> Some (Inl e)
         | Some (Inr st) \<Rightarrow>
             Some (Inr (body_top st @ concat (index_file st @ [page_foot]), entry_count st)))"

section \<open>The request handler\<close>

text \<open>
  The request of the event (\<^verbatim>\<open>event['Records'][0]['cf']['request']\<close>): \<^verbatim>\<open>uri\<close> and
  \<^verbatim>\<open>querystring\<close> are read with a default, \<^verbatim>\<open>headers\<close> must be there, and further fields
  are the extension of the record. The event is the list of the requests of its records.
  The creation of the two \<^verbatim>\<open>boto3\<close> objects is not modelled; the client is an argument. The
  fuel is the one of the enumerator, and the result is \<open>None\<close> when it does not suffice.
\<close>

record 'h request =
  req_uri :: "string option"
  req_querystring :: "string option"
  req_headers :: 'h

record response =
  status :: string
  statusDescription :: string
  headers :: "(string \<times> (string \<times> string) list) list"
  body :: string

datatype 'r outcome = Passthrough 'r | Response response

definition entry_offset_of :: "'t env \<Rightarrow> (string \<rightharpoonup> string list) \<Rightarrow> error + int" where
  \<comment> \<open>lines 495 to 497\<close>
  "entry_offset_of env query_components =
     (case query_components ''entry'' of
        None \<Rightarrow> Inr 0
      | Some vs \<Rightarrow> (case vs of [] \<Rightarrow> Inl IndexError | v # _ \<Rightarrow> py_int (int_max_str_digits env) v))"

definition derive_dir_key :: "string \<Rightarrow> string" where
  \<comment> \<open>lines 505 to 511, on the decoded URI\<close>
  "derive_dir_key u =
     (if endswith u ''/'' then rstrip CHR ''/'' u
      else if endswith u ''index.html'' then rsplit1_head CHR ''/'' u
      else u)"

definition ok_response :: "string \<Rightarrow> response" where
  "ok_response content =
     \<lparr>status = ''200'',
      statusDescription = ''OK'',
      headers = [(''cache-control'', [(''Cache-Control'', ''max-age=0'')]),
                 (''content-type'', [(''Content-Type'', ''text/html'')])],
      body = content\<rparr>"

definition get_uri :: "('h, 'z) request_scheme \<Rightarrow> string" where
  \<comment> \<open>\<^verbatim>\<open>request.get('uri', '')\<close>\<close>
  "get_uri request = (case req_uri request of None \<Rightarrow> [] | Some x \<Rightarrow> x)"

definition get_querystring :: "('h, 'z) request_scheme \<Rightarrow> string" where
  \<comment> \<open>\<^verbatim>\<open>request.get('querystring', '')\<close>\<close>
  "get_querystring request = (case req_querystring request of None \<Rightarrow> [] | Some x \<Rightarrow> x)"

definition lambda_handler ::
  "'t env \<Rightarrow> nat \<Rightarrow> 't s3_client \<Rightarrow> ('h, 'z) request_scheme list
     \<Rightarrow> (error + ('h, 'z) request_scheme outcome) option" where
  "lambda_handler env fuel s3_conn event =
     (case event of
        [] \<Rightarrow> Some (Inl IndexError)
      | request # _ \<Rightarrow>
          (let bucket_name = ''art-srv-enterprise'';
               u = get_uri request;
               query_string = get_querystring request;
               query_components = parse_qs (unquote env) query_string
           in case entry_offset_of env query_components of
                Inl e \<Rightarrow> Some (Inl e)
              | Inr entry_offset \<Rightarrow>
                  if str_in ''..'' u then Some (Inr (Passthrough request))
                  else (case process_dir env fuel s3_conn bucket_name
                               (Path (derive_dir_key (unquote env u))) entry_offset of
                          None \<Rightarrow> None
                        | Some (Inl e) \<Rightarrow> Some (Inl e)
                        | Some (Inr (content, n)) \<Rightarrow>
                            if n = 0 then Some (Inr (Passthrough request))
                            else Some (Inr (Response (ok_response content))))))"

section \<open>Notions used to state the properties\<close>

text \<open>The entries the renderer counts: all but those named \<^verbatim>\<open>index.html\<close> in any letter case.\<close>

definition counted :: "'t S3Path list \<Rightarrow> 't S3Path list" where
  "counted es = filter (\<lambda>e. lower (name e) \<noteq> DEFAULT_OUTPUT_FILE) es"

text \<open>The row of an entry whose metadata can be read, and the rows of a run of entries.\<close>

definition row_of :: "'t env \<Rightarrow> 't S3Path \<Rightarrow> string option" where
  "row_of env e =
     (case inspect_entry env e of Inl err \<Rightarrow> None | Inr info \<Rightarrow> Some (entry_row env e info))"

definition rows_of :: "'t env \<Rightarrow> 't S3Path list \<Rightarrow> string list" where
  "rows_of env es = List.map_filter (row_of env) (counted es)"

text \<open>The counted entries whose metadata cannot be read, each with its exception.\<close>

definition failures_of :: "'t env \<Rightarrow> 't S3Path list \<Rightarrow> (error \<times> 't S3Path) list" where
  "failures_of env es =
     List.map_filter (\<lambda>e. case inspect_entry env e of Inl err \<Rightarrow> Some (err, e) | Inr info \<Rightarrow> None)
       (counted es)"

text \<open>The number of bytes of the UTF-8 encoding of a text (of code points below 256).\<close>

definition utf8_length :: "string \<Rightarrow> nat" where
  "utf8_length s = sum_list (map (\<lambda>c. if (of_char c :: nat) < 128 then 1 else 2) s)"

text \<open>The path objects among the items of a sequence.\<close>

definition yielded :: "'t item list \<Rightarrow> 't S3Path list" where
  "yielded items = List.map_filter (\<lambda>i. case i of Yield p \<Rightarrow> Some p | Raise e \<Rightarrow> None) items"

definition is_index_item :: "'t item \<Rightarrow> bool" where
  "is_index_item i = (case i of Yield p \<Rightarrow> lower (name p) = DEFAULT_OUTPUT_FILE | Raise e \<Rightarrow> False)"

text \<open>A row comes from a sequence when it is the row of one of its counted entries.\<close>

definition row_from :: "'t env \<Rightarrow> 't item list \<Rightarrow> string \<Rightarrow> bool" where
  "row_from env items row =
     (\<exists>p info. Yield p \<in> set items \<and> lower (name p) \<noteq> DEFAULT_OUTPUT_FILE
        \<and> inspect_entry env p = Inr info \<and> row = entry_row env p info)"

text \<open>
  The directory key as the specification words it: without the one trailing separator; or
  without the suffix \<^verbatim>\<open>index.html\<close> and the separator before it; or the URI itself.
\<close>

definition spec_dir_key :: "string \<Rightarrow> string" where
  "spec_dir_key u =
     (if endswith u ''/'' then butlast u
      else if endswith u ''index.html'' then
        (let r = take (length u - length ''index.html'') u
         in if endswith r ''/'' then butlast r else r)
      else u)"

text \<open>
  \<^verbatim>\<open>dir_path\<close> after line 56, for the key the handler derives from a decoded URI: the text
  of the path object without its leading separators.
\<close>

definition dir_path_of :: "string \<Rightarrow> string" where
  "dir_path_of u = lstrip CHR ''/'' (path_str (Path (derive_dir_key u)))"

subsection \<open>Example data\<close>

text \<open>
  An environment for the examples: timestamps are strings and render as themselves, and
  the static page pieces are abbreviated.
\<close>

definition demo_env :: "string env" where
  "demo_env =
     \<lparr>unquote = unquote_ascii, isoformat = (\<lambda>t. t), strftime_c = (\<lambda>t. t), os_name = ''posix'',
      int_max_str_digits = 4300, page_head = ''<h1>'', page_table_head = ''</h1><table>''\<rparr>"

text \<open>A store with one page under every prefix: two directories and a file of 2048 bytes.\<close>

definition demo_store :: "string s3_client" where
  "demo_store bucket prefix delimiter token =
     Inr \<lparr>CommonPrefixes = [prefix @ ''x/'', prefix @ ''y/''],
          Contents = [\<lparr>Key = prefix @ ''f.txt'', LastModified = Some ''2021-06-23T23:29:59+00:00'',
                       Size = Some 2048\<rparr>],
          IsTruncated = False, NextContinuationToken = None\<rparr>"

text \<open>A store with nothing under any prefix, and a store that refuses every call.\<close>

definition empty_store :: "string s3_client" where
  "empty_store bucket prefix delimiter token =
     Inr \<lparr>CommonPrefixes = [], Contents = [], IsTruncated = False, NextContinuationToken = None\<rparr>"

definition failing_store :: "string s3_client" where
  "failing_store bucket prefix delimiter token = Inl (ClientError ''AccessDenied'')"


definition demo_request :: "string \<Rightarrow> string \<Rightarrow> unit request" where
  "demo_request u qs = \<lparr>req_uri = Some u, req_querystring = Some qs, req_headers = ()\<rparr>"

definition dir_x :: "string S3Path" where
  "dir_x = S3Path_dir ''a/x/''"

definition dir_y :: "string S3Path" where
  "dir_y = S3Path_dir ''a/y/''"

definition file_f :: "string S3Path" where
  "file_f = S3Path_file \<lparr>Key = ''a/f.txt'', LastModified = Some ''2021-06-23T23:29:59+00:00'',
                          Size = Some 2048\<rparr>"

definition file_index :: "string S3Path" where
  "file_index = S3Path_file \<lparr>Key = ''a/Index.HTML'', LastModified = Some ''2021-06-23T23:29:59+00:00'',
                              Size = Some 512\<rparr>"

text \<open>A file whose listing record has no timestamp, and a directory with a very long name.\<close>

definition file_no_time :: "string S3Path" where
  "file_no_time = S3Path_file \<lparr>Key = ''a/g.txt'', LastModified = None, Size = Some 7\<rparr>"

definition long_name :: string where
  "long_name = replicate 1000000 CHR ''a''"

definition dir_long :: "string S3Path" where
  "dir_long =
     \<lparr>is_dir = True, last_modified = None, size_p = 0, absolute = ''a/'' @ long_name @ ''/'',
      name = long_name\<rparr>"

text \<open>A directory whose name is the letter U+00E9, two bytes in UTF-8, 130000 times.\<close>

definition accent_name :: string where
  "accent_name = replicate 130000 (CHR 0xE9)"

definition dir_accent :: "string S3Path" where
  "dir_accent =
     \<lparr>is_dir = True, last_modified = None, size_p = 0, absolute = ''a/'' @ accent_name @ ''/'',
      name = accent_name\<rparr>"

section \<open>The size format\<close>

lemma unit_loop_units:
  "unit_loop b (hd UNITS_MAPPING) UNITS_MAPPING =
     (if 1024 ^ 5 \<le> b then (1024 ^ 5, Inl '' PB'')
      else if 1024 ^ 4 \<le> b then (1024 ^ 4, Inl '' TB'')
      else if 1024 ^ 3 \<le> b then (1024 ^ 3, Inl '' GB'')
      else if 1024 ^ 2 \<le> b then (1024 ^ 2, Inl '' MB'')
      else if 1024 ^ 1 \<le> b then (1024 ^ 1, Inl '' KB'')
      else (1024 ^ 0, Inr ('' byte'', '' bytes'')))"
  by (simp add: UNITS_MAPPING_def)

text \<open>Below \<open>2 ^ 53\<close> the dividend is a binary64 number, and the quotient is exact.\<close>

lemma int_truediv_exact:
  assumes "0 \<le> a" "a < 2 ^ 53" "0 < f" "f \<le> 2 ^ 50"
  shows "int_truediv a f = Inr (a div f)"
proof -
  have m: "round53 (nat \<bar>a\<bar>) = nat a"
    using assms by (simp add: round53_def nat_less_iff)
  have "a < 2 ^ 1024 * f"
  proof -
    have "a < 2 ^ 53" by fact
    also have "\<dots> \<le> 2 ^ 1024 * (1::int)" by simp
    also have "\<dots> \<le> 2 ^ 1024 * f" using assms(3) by (intro mult_left_mono) auto
    finally show ?thesis .
  qed
  then have "nat a < 2 ^ 1024 * nat f"
    using assms by (simp add: nat_less_iff nat_mult_distrib)
  moreover have "sgn a * int (nat a div nat f) = a div f"
    using assms by (cases "a = 0") (simp_all add: zdiv_int sgn_if)
  ultimately show ?thesis
    by (simp add: int_truediv_def m Let_def)
qed

lemma bit_length_example: "bit_length 18014398509481983 = 54"
  by (simp add: bit_length.simps)

lemma round53_example: "round53 18014398509481983 = 18014398509481984"
  by (simp add: round53_def bit_length_example Let_def)

text \<open>
  C6 (as stated, refuted). At \<open>b = 2 ^ 54 - 1\<close> the quotient \<open>b / 2 ^ 50\<close> rounds up to 16.0 in
  binary64, so \<^verbatim>\<open>pretty_size\<close> answers 16 PB where the floor of the quotient is 15.
\<close>

theorem pretty_size_rounds_up_counterexample:
  "pretty_size (2 ^ 54 - 1) = Inr ''16 PB'' \<and> spec_pretty_size (2 ^ 54 - 1) = ''15 PB''"
  by (simp add: pretty_size_def unit_loop_units int_truediv_def round53_example
      spec_pretty_size_def str_int_def digits10.simps)

text \<open>
  C6 (amended). For every byte count \<open>b\<close> with \<open>0 \<le> b < 2 ^ 53\<close>, \<^verbatim>\<open>pretty_size(b)\<close> is the floor
  of \<open>b\<close> divided by the largest unit of PB, TB, GB, MB, KB, byte not above \<open>b\<close> (the byte when
  \<open>b = 0\<close>), followed by that unit's suffix, with \<^verbatim>\<open>byte\<close> for an amount of one byte and
  \<^verbatim>\<open>bytes\<close> for any other amount of bytes.
\<close>

theorem pretty_size_exact_range:
  assumes "0 \<le> b" and "b < 2 ^ 53"
  shows "pretty_size b = Inr (spec_pretty_size b)"
  using assms
  by (simp add: pretty_size_def unit_loop_units spec_pretty_size_def int_truediv_exact)

theorem pretty_size_exact_range_witness:
  "pretty_size 1023 = Inr ''1023 bytes'' \<and> pretty_size 1024 = Inr ''1 KB''
   \<and> pretty_size 1536 = Inr ''1 KB'' \<and> pretty_size 1 = Inr ''1 byte''
   \<and> pretty_size 0 = Inr ''0 bytes''"
  using pretty_size_exact_range [of 1023] pretty_size_exact_range [of 1024]
    pretty_size_exact_range [of 1536] pretty_size_exact_range [of 1]
    pretty_size_exact_range [of 0]
  by (simp add: spec_pretty_size_def str_int_def digits10.simps)

section \<open>The renderer's loop\<close>

lemma counted_Nil [simp]: "counted [] = []"
  by (simp add: counted_def)

lemma counted_Cons:
  "counted (e # es) = (if lower (name e) = DEFAULT_OUTPUT_FILE then counted es else e # counted es)"
  by (simp add: counted_def)

lemma rows_of_Nil [simp]: "rows_of env [] = []"
  by (simp add: rows_of_def)

lemma rows_of_Cons:
  "rows_of env (e # es) =
     (if lower (name e) = DEFAULT_OUTPUT_FILE then rows_of env es
      else (case inspect_entry env e of
              Inl err \<Rightarrow> rows_of env es
            | Inr info \<Rightarrow> entry_row env e info # rows_of env es))"
  by (simp add: rows_of_def counted_Cons row_of_def split: sum.splits)

lemma failures_of_Nil [simp]: "failures_of env [] = []"
  by (simp add: failures_of_def)

lemma failures_of_Cons:
  "failures_of env (e # es) =
     (if lower (name e) = DEFAULT_OUTPUT_FILE then failures_of env es
      else (case inspect_entry env e of
              Inl err \<Rightarrow> (err, e) # failures_of env es
            | Inr info \<Rightarrow> failures_of env es))"
  by (simp add: failures_of_def counted_Cons split: sum.splits)

text \<open>Every counted entry either gets a row or is reported as a failure.\<close>

lemma rows_and_failures: "length (rows_of env es) + length (failures_of env es) = length (counted es)"
  by (induction es) (simp_all add: rows_of_Cons failures_of_Cons counted_Cons split: sum.splits)

lemma tell_Nil [simp]: "tell [] = 0"
  by (simp add: tell_def)

lemma tell_Cons: "tell (x # xs) = length x + tell xs"
  by (simp add: tell_def)

lemma tell_append: "tell (xs @ ys) = tell xs + tell ys"
  by (simp add: tell_def)

lemma initial_fields [simp]:
  "index_file (initial_state env p) = []"
  "entry_count (initial_state env p) = 0"
  "printed (initial_state env p) = []"
  by (simp_all add: initial_state_def)

text \<open>The entries whose running count stays below the offset are counted and nothing else.\<close>

lemma render_entries_skip:
  assumes "int (entry_count st + length (counted es)) < off"
  shows "render_entries env off (map Yield es @ rest) fin st =
         render_entries env off rest fin (st\<lparr>entry_count := entry_count st + length (counted es)\<rparr>)"
  using assms
proof (induction es arbitrary: st)
  case Nil
  then show ?case by simp
next
  case (Cons e es)
  show ?case
  proof (cases "lower (name e) = DEFAULT_OUTPUT_FILE")
    case True
    with Cons show ?thesis by (simp add: counted_Cons)
  next
    case False
    let ?st1 = "st\<lparr>entry_count := entry_count st + 1\<rparr>"
    from False Cons.prems have lt: "int (entry_count ?st1 + length (counted es)) < off"
      by (simp add: counted_Cons)
    then have "int (entry_count ?st1) < off" by simp
    with False have "render_entries env off (map Yield (e # es) @ rest) fin st =
        render_entries env off (map Yield es @ rest) fin ?st1"
      by (simp add: Let_def)
    also have "\<dots> = render_entries env off rest fin
        (?st1\<lparr>entry_count := entry_count ?st1 + length (counted es)\<rparr>)"
      by (rule Cons.IH [OF lt])
    finally show ?thesis using False by (simp add: counted_Cons)
  qed
qed

text \<open>
  With no offset to wait for and the cap not exceeded, a run of entries is counted, the
  rows of those whose metadata can be read are written, and the others are reported.
\<close>

lemma render_entries_run:
  assumes "off \<le> int (entry_count st) + 1"
    and "tell (index_file st) + tell (rows_of env es) \<le> 1000000"
  shows "render_entries env off (map Yield es @ rest) fin st =
         render_entries env off rest fin
           (st\<lparr>entry_count := entry_count st + length (counted es),
               index_file := index_file st @ rows_of env es,
               printed := printed st @ failures_of env es\<rparr>)"
  using assms
proof (induction es arbitrary: st)
  case Nil
  then show ?case by simp
next
  case (Cons e es)
  show ?case
  proof (cases "lower (name e) = DEFAULT_OUTPUT_FILE")
    case True
    with Cons show ?thesis by (simp add: counted_Cons rows_of_Cons failures_of_Cons)
  next
    case False
    let ?st1 = "st\<lparr>entry_count := entry_count st + 1\<rparr>"
    have nlt: "\<not> int (entry_count ?st1) < off" using Cons.prems(1) by simp
    show ?thesis
    proof (cases "inspect_entry env e")
      case (Inl err)
      let ?st2 = "?st1\<lparr>printed := printed ?st1 @ [(err, e)]\<rparr>"
      have step: "render_entries env off (map Yield (e # es) @ rest) fin st =
          render_entries env off (map Yield es @ rest) fin ?st2"
        using False nlt Inl by (simp add: Let_def)
      have "render_entries env off (map Yield es @ rest) fin ?st2 =
          render_entries env off rest fin
            (?st2\<lparr>entry_count := entry_count ?st2 + length (counted es),
               index_file := index_file ?st2 @ rows_of env es,
               printed := printed ?st2 @ failures_of env es\<rparr>)"
        using Cons.prems False Inl by (intro Cons.IH) (simp_all add: rows_of_Cons)
      with step show ?thesis using False Inl
        by (simp add: counted_Cons rows_of_Cons failures_of_Cons)
    next
      case (Inr info)
      let ?st2 = "?st1\<lparr>index_file := index_file ?st1 @ [entry_row env e info]\<rparr>"
      have cap: "tell (index_file ?st2) + tell (rows_of env es) \<le> 1000000"
        using Cons.prems(2) False Inr by (simp add: rows_of_Cons tell_append tell_Cons)
      then have "\<not> 1000000 < tell (index_file ?st2)" by simp
      then have step: "render_entries env off (map Yield (e # es) @ rest) fin st =
          render_entries env off (map Yield es @ rest) fin ?st2"
        using False nlt Inr by (simp add: Let_def)
      have "render_entries env off (map Yield es @ rest) fin ?st2 =
          render_entries env off rest fin
            (?st2\<lparr>entry_count := entry_count ?st2 + length (counted es),
               index_file := index_file ?st2 @ rows_of env es,
               printed := printed ?st2 @ failures_of env es\<rparr>)"
        using Cons.prems(1) cap by (intro Cons.IH) simp_all
      with step show ?thesis using False Inr
        by (simp add: counted_Cons rows_of_Cons failures_of_Cons)
    qed
  qed
qed

lemma render_entries_finished:
  assumes "off \<le> 1" and "tell (rows_of env es) \<le> 1000000"
  shows "render_entries env off (map Yield es) True (initial_state env p) =
         Some (Inr ((initial_state env p)\<lparr>entry_count := length (counted es),
               index_file := rows_of env es, printed := failures_of env es\<rparr>))"
  using render_entries_run [of off "initial_state env p" env es "[]" True] assms
  by simp


text \<open>The loop returns whenever the generator has finished.\<close>

lemma render_entries_total: "render_entries env off items True st \<noteq> None"
proof (induction items arbitrary: st)
  case Nil
  show ?case by simp
next
  case (Cons i items)
  show ?case
  proof (cases i)
    case (Raise e)
    then show ?thesis by simp
  next
    case (Yield p)
    then show ?thesis using Cons.IH by (simp add: Let_def split: sum.splits)
  qed
qed

subsection \<open>The example entries\<close>

lemma entry_row_length:
  "length (entry_row env e (sb, sp, li, hum)) =
     454 + length (quote (snd (entry_type_path env e))) + length (fst (entry_type_path env e))
       + length (name e) + length (str_int sb) + length sp + length li + length hum"
  by (cases "entry_type_path env e") (simp add: entry_row_def)

lemma name_dir_x: "name dir_x = ''x''"
  by (simp add: dir_x_def S3Path_dir_def lstrip_def Path_def path_name_def startswith_def)

lemma counted_dir_x: "lower (name dir_x) \<noteq> DEFAULT_OUTPUT_FILE"
  by (simp add: name_dir_x lower_def lower_char_def DEFAULT_OUTPUT_FILE_def)

lemma inspect_dir_x: "inspect_entry demo_env dir_x = Inr (- 1, ''&mdash;'', [], ''-'')"
  by (simp add: inspect_entry_def is_file_def dir_x_def S3Path_dir_def)

lemma type_path_dir_x: "entry_type_path demo_env dir_x = (''folder'', ''x/'')"
  by (simp add: entry_type_path_def is_symlink_def name_dir_x join_empty_def endswith_def
        demo_env_def)
     (simp add: dir_x_def S3Path_dir_def)

lemma row_dir_x_length: "length (entry_row demo_env dir_x (- 1, ''&mdash;'', [], ''-'')) = 473"
  by (simp add: entry_row_length type_path_dir_x quote_def quote_char_def always_safe_def
        name_dir_x str_int_def digits10.simps)

lemma name_file_f: "name file_f = ''f.txt''"
  by (simp add: file_f_def S3Path_file_def lstrip_def Path_def path_name_def startswith_def)

lemma counted_file_f: "lower (name file_f) \<noteq> DEFAULT_OUTPUT_FILE"
  by (simp add: name_file_f lower_def lower_char_def DEFAULT_OUTPUT_FILE_def)

lemma pretty_size_2048: "pretty_size 2048 = Inr ''2 KB''"
  by (simp add: pretty_size_def unit_loop_units int_truediv_def round53_def str_int_def
        digits10.simps)

lemma inspect_file_f:
  "inspect_entry demo_env file_f =
     Inr (2048, ''2 KB'', ''2021-06-23T23:29:59+00:00'', ''2021-06-23T23:29:59+00:00'')"
  by (simp add: inspect_entry_def is_file_def file_f_def S3Path_file_def pretty_size_2048
        demo_env_def)

lemma type_path_file_f: "entry_type_path demo_env file_f = (''file'', ''f.txt'')"
  by (simp add: entry_type_path_def is_symlink_def is_file_def name_file_f)
     (simp add: file_f_def S3Path_file_def)

lemma row_file_f_length:
  "length (entry_row demo_env file_f
     (2048, ''2 KB'', ''2021-06-23T23:29:59+00:00'', ''2021-06-23T23:29:59+00:00'')) = 526"
  by (simp add: entry_row_length type_path_file_f quote_def quote_char_def always_safe_def
        name_file_f str_int_def digits10.simps)

lemma name_file_index: "name file_index = ''Index.HTML''"
  by (simp add: file_index_def S3Path_file_def lstrip_def Path_def path_name_def startswith_def)

lemma index_file_index: "lower (name file_index) = DEFAULT_OUTPUT_FILE"
  by (simp add: name_file_index lower_def lower_char_def DEFAULT_OUTPUT_FILE_def char_of_def bit_0)

lemma name_file_no_time: "name file_no_time = ''g.txt''"
  by (simp add: file_no_time_def S3Path_file_def lstrip_def Path_def path_name_def startswith_def)

lemma counted_file_no_time: "lower (name file_no_time) \<noteq> DEFAULT_OUTPUT_FILE"
  by (simp add: name_file_no_time lower_def lower_char_def DEFAULT_OUTPUT_FILE_def)

lemma inspect_file_no_time: "inspect_entry demo_env file_no_time = Inl AttributeError"
  by (simp add: inspect_entry_def is_file_def file_no_time_def S3Path_file_def pretty_size_def
        unit_loop_units int_truediv_def round53_def)

lemma length_long_name: "length long_name = 1000000"
  by (simp add: long_name_def)

lemma counted_dir_long: "lower (name dir_long) \<noteq> DEFAULT_OUTPUT_FILE"
proof
  assume "lower (name dir_long) = DEFAULT_OUTPUT_FILE"
  then have "length (lower (name dir_long)) = length DEFAULT_OUTPUT_FILE" by simp
  then show False
    by (simp add: lower_def dir_long_def length_long_name DEFAULT_OUTPUT_FILE_def)
qed

lemma inspect_dir_long: "inspect_entry demo_env dir_long = Inr (- 1, ''&mdash;'', [], ''-'')"
  by (simp add: inspect_entry_def is_file_def dir_long_def)

lemma row_dir_long_length:
  "1000000 < length (entry_row demo_env dir_long (- 1, ''&mdash;'', [], ''-''))"
  by (simp add: entry_row_length dir_long_def length_long_name)

lemma utf8_length_append: "utf8_length (a @ b) = utf8_length a + utf8_length b"
  by (simp add: utf8_length_def)

lemma utf8_length_ge: "length s \<le> utf8_length s"
  by (induction s) (simp_all add: utf8_length_def)

lemma utf8_length_accent: "utf8_length (replicate n (CHR 0xE9)) = 2 * n"
  by (induction n) (simp_all add: utf8_length_def)

lemma quote_accent: "length (quote (replicate n (CHR 0xE9) @ ''/'')) = 6 * n + 1"
  by (induction n) (simp_all add: quote_def quote_char_def always_safe_def pct_def)

lemma length_accent_name: "length accent_name = 130000"
  by (simp add: accent_name_def)

lemma counted_dir_accent: "lower (name dir_accent) \<noteq> DEFAULT_OUTPUT_FILE"
proof
  assume "lower (name dir_accent) = DEFAULT_OUTPUT_FILE"
  then have "length (lower (name dir_accent)) = length DEFAULT_OUTPUT_FILE" by simp
  then show False
    by (simp add: lower_def dir_accent_def length_accent_name DEFAULT_OUTPUT_FILE_def)
qed

lemma inspect_dir_accent: "inspect_entry demo_env dir_accent = Inr (- 1, ''&mdash;'', [], ''-'')"
  by (simp add: inspect_entry_def is_file_def dir_accent_def)

lemma type_path_dir_accent:
  "entry_type_path demo_env dir_accent = (''folder'', accent_name @ ''/'')"
  by (simp add: entry_type_path_def is_symlink_def join_empty_def endswith_def demo_env_def
        dir_accent_def accent_name_def)

lemma row_dir_accent_length:
  "length (entry_row demo_env dir_accent (- 1, ''&mdash;'', [], ''-'')) = 910471"
  by (simp add: entry_row_length type_path_dir_accent str_int_def digits10.simps)
     (simp add: accent_name_def quote_accent dir_accent_def)

text \<open>The bytes of a row are at least its characters and the extra bytes of the name.\<close>

lemma entry_row_bytes:
  "length (entry_row env e info) + utf8_length (name e)
     \<le> utf8_length (entry_row env e info) + length (name e)"
proof -
  obtain sb sp li hum where info: "info = (sb, sp, li, hum)"
    by (cases info)
  obtain ty pa where tp: "entry_type_path env e = (ty, pa)"
    by (cases "entry_type_path env e")
  show ?thesis
    using utf8_length_ge [of "quote pa"] utf8_length_ge [of ty] utf8_length_ge [of "str_int sb"]
      utf8_length_ge [of sp] utf8_length_ge [of li] utf8_length_ge [of hum]
    by (simp add: entry_row_def info tp utf8_length_append)
       (simp add: utf8_length_def)
qed

lemma row_dir_accent_bytes:
  "1000000 < utf8_length (entry_row demo_env dir_accent (- 1, ''&mdash;'', [], ''-''))"
proof -
  have "utf8_length (name dir_accent) = 260000" "length (name dir_accent) = 130000"
    by (simp_all add: dir_accent_def accent_name_def utf8_length_accent)
  with entry_row_bytes [of demo_env dir_accent "(- 1, ''&mdash;'', [], ''-'')"]
  show ?thesis by (simp add: row_dir_accent_length)
qed

subsection \<open>Pagination by offset\<close>

text \<open>
  C2 (as stated, refuted). With an offset of 1 the entry whose running count is 1 is
  rendered: its row is the one piece written, while the claim has the markup omitted for
  every count up to the offset.
\<close>

theorem offset_one_renders_first_counterexample:
  "render_entries demo_env 1 [Yield dir_x] True (initial_state demo_env (Path ''/a'')) =
     Some (Inr \<lparr>body_top = body_top (initial_state demo_env (Path ''/a'')),
                index_file = [entry_row demo_env dir_x (- 1, ''&mdash;'', [], ''-'')],
                entry_count = 1, printed = []\<rparr>)"
  by (simp add: counted_dir_x inspect_dir_x Let_def tell_def row_dir_x_length initial_state_def)

text \<open>
  C2 (amended). For every entry sequence and every offset \<open>N \<ge> 1\<close>, entries are counted in
  enumeration order and their markup is omitted while the running count is below \<open>N\<close>; the
  first entry whose markup is emitted is the one whose running count equals \<open>N\<close> (when its
  metadata can be read). Below, \<open>es\<close> holds the \<open>N - 1\<close> counted entries before \<open>e\<close>: the first
  piece written is the row of \<open>e\<close>, at count \<open>N\<close>, and the loop goes on from there (or stops
  there, if that row alone exceeds the cap).
\<close>

theorem offset_first_rendered:
  assumes "1 \<le> N"
    and "int (length (counted es)) = N - 1"
    and "lower (name e) \<noteq> DEFAULT_OUTPUT_FILE"
    and "inspect_entry env e = Inr info"
  shows "render_entries env N (map Yield es @ Yield e # rest) fin (initial_state env p) =
         (let st = (initial_state env p)\<lparr>entry_count := nat N,
                     index_file := [entry_row env e info]\<rparr>
          in if 1000000 < length (entry_row env e info)
             then Some (Inr (st\<lparr>body_top := body_top st @ truncated_notice (nat N + 1)\<rparr>))
             else render_entries env N rest fin st)"
proof -
  let ?init = "initial_state env p"
  let ?mid = "?init\<lparr>entry_count := length (counted es)\<rparr>"
  have below: "int (entry_count ?init + length (counted es)) < N"
    using assms(2) by simp
  have skip: "render_entries env N (map Yield es @ Yield e # rest) fin ?init =
      render_entries env N (Yield e # rest) fin
        (?init\<lparr>entry_count := entry_count ?init + length (counted es)\<rparr>)"
    using below by (rule render_entries_skip)
  have st: "?init\<lparr>entry_count := entry_count ?init + length (counted es)\<rparr> = ?mid"
    by simp
  have n: "nat N = Suc (length (counted es))"
    using assms(1,2) by linarith
  have nlt: "\<not> int (Suc (length (counted es))) < N"
    using assms(2) by linarith
  have step: "render_entries env N (Yield e # rest) fin ?mid =
         (let st = ?init\<lparr>entry_count := nat N, index_file := [entry_row env e info]\<rparr>
          in if 1000000 < length (entry_row env e info)
             then Some (Inr (st\<lparr>body_top := body_top st @ truncated_notice (nat N + 1)\<rparr>))
             else render_entries env N rest fin st)"
    using assms(3,4) nlt by (simp add: Let_def tell_def n)
  show ?thesis unfolding skip st by (rule step)
qed

theorem offset_first_rendered_witness:
  "render_entries demo_env 2 [Yield dir_x, Yield file_f] True (initial_state demo_env (Path ''/a'')) =
     Some (Inr ((initial_state demo_env (Path ''/a''))
       \<lparr>entry_count := 2,
        index_file := [entry_row demo_env file_f
           (2048, ''2 KB'', ''2021-06-23T23:29:59+00:00'', ''2021-06-23T23:29:59+00:00'')]\<rparr>))"
  using offset_first_rendered [of 2 "[dir_x]" file_f demo_env
      "(2048, ''2 KB'', ''2021-06-23T23:29:59+00:00'', ''2021-06-23T23:29:59+00:00'')"
      "[]" True "Path ''/a''"]
  by (simp add: counted_Cons counted_dir_x counted_file_f inspect_file_f row_file_f_length)

subsection \<open>Truncation\<close>

text \<open>
  C3 (as stated, refuted). First sequence: a file whose record has no timestamp, then a
  directory whose row alone exceeds 1,000,000 characters. The markup first exceeds the cap
  at entry 2 and the notice links to \<^verbatim>\<open>entry=3\<close>, but the document holds one row, not two:
  the first entry was counted and skipped. Second sequence: one directory whose row has
  910471 characters and more than 1,000,000 bytes. The markup exceeds 1,000,000 bytes at
  entry 1, but there is no truncation notice: the cap is on characters.
\<close>

theorem truncation_rows_counterexample:
  "1000000 < length (entry_row demo_env dir_long (- 1, ''&mdash;'', [], ''-''))
   \<and> render_entries demo_env 0 [Yield file_no_time, Yield dir_long] True
       (initial_state demo_env (Path ''/a'')) =
     Some (Inr \<lparr>body_top = body_top (initial_state demo_env (Path ''/a'')) @ truncated_notice 3,
                index_file = [entry_row demo_env dir_long (- 1, ''&mdash;'', [], ''-'')],
                entry_count = 2,
                printed = [(AttributeError, file_no_time)]\<rparr>)
   \<and> 1000000 < utf8_length (entry_row demo_env dir_accent (- 1, ''&mdash;'', [], ''-''))
   \<and> render_entries demo_env 0 [Yield dir_accent] True (initial_state demo_env (Path ''/a'')) =
     Some (Inr \<lparr>body_top = body_top (initial_state demo_env (Path ''/a'')),
                index_file = [entry_row demo_env dir_accent (- 1, ''&mdash;'', [], ''-'')],
                entry_count = 1,
                printed = []\<rparr>)"
  using row_dir_long_length row_dir_accent_bytes
  by (simp add: counted_file_no_time inspect_file_no_time counted_dir_long inspect_dir_long
      counted_dir_accent inspect_dir_accent row_dir_accent_length
      Let_def tell_def initial_state_def numeral_3_eq_3)

text \<open>
  C3 (amended). With offset 0 (or 1, which skips nothing either), if the rows of the entries
  \<open>es\<close> fit in 1,000,000 characters and the row of the next counted entry \<open>e\<close> takes the
  total above that, so that the markup first exceeds the cap at the entry with running count
  \<open>k = length (counted es) + 1\<close>, then rendering stops there: the document holds one row for
  each of the first \<open>k\<close> counted entries whose metadata could be read (exactly \<open>k\<close> rows when none
  failed; the failed ones are reported instead), the truncation notice links to
  \<^verbatim>\<open>entry=k+1\<close>, and the result is the same whatever follows \<open>e\<close> in the sequence and whether
  or not the sequence can be continued: nothing after \<open>e\<close> is rendered or pulled.
\<close>

theorem truncation_at_cap:
  assumes "off \<le> 1"
    and "tell (rows_of env es) \<le> 1000000"
    and "lower (name e) \<noteq> DEFAULT_OUTPUT_FILE"
    and "inspect_entry env e = Inr info"
    and "1000000 < tell (rows_of env es) + length (entry_row env e info)"
  shows "render_entries env off (map Yield es @ Yield e # rest) fin (initial_state env p) =
           Some (Inr \<lparr>body_top = body_top (initial_state env p)
                                   @ truncated_notice (length (counted es) + 1 + 1),
                      index_file = rows_of env es @ [entry_row env e info],
                      entry_count = length (counted es) + 1,
                      printed = failures_of env es\<rparr>)
         \<and> length (rows_of env es @ [entry_row env e info]) + length (failures_of env es)
             = length (counted es) + 1"
proof -
  let ?init = "initial_state env p"
  let ?mid = "?init\<lparr>entry_count := length (counted es), index_file := rows_of env es,
                  printed := failures_of env es\<rparr>"
  have run: "render_entries env off (map Yield es @ Yield e # rest) fin ?init =
      render_entries env off (Yield e # rest) fin
        (?init\<lparr>entry_count := entry_count ?init + length (counted es),
              index_file := index_file ?init @ rows_of env es,
              printed := printed ?init @ failures_of env es\<rparr>)"
    by (rule render_entries_run) (use assms(1,2) in simp_all)
  have st: "?init\<lparr>entry_count := entry_count ?init + length (counted es),
              index_file := index_file ?init @ rows_of env es,
              printed := printed ?init @ failures_of env es\<rparr> = ?mid"
    by simp
  have nlt: "\<not> int (Suc (length (counted es))) < off"
    using assms(1) by linarith
  have cap: "1000000 < tell (rows_of env es @ [entry_row env e info])"
    using assms(5) by (simp add: tell_append tell_Cons)
  have step: "render_entries env off (Yield e # rest) fin ?mid =
      Some (Inr \<lparr>body_top = body_top ?init @ truncated_notice (length (counted es) + 1 + 1),
                 index_file = rows_of env es @ [entry_row env e info],
                 entry_count = length (counted es) + 1,
                 printed = failures_of env es\<rparr>)"
    using assms(3,4) nlt cap by (simp add: Let_def initial_state_def)
  have "render_entries env off (map Yield es @ Yield e # rest) fin ?init =
      Some (Inr \<lparr>body_top = body_top ?init @ truncated_notice (length (counted es) + 1 + 1),
                 index_file = rows_of env es @ [entry_row env e info],
                 entry_count = length (counted es) + 1,
                 printed = failures_of env es\<rparr>)"
    unfolding run st by (rule step)
  then show ?thesis using rows_and_failures [of env es] by simp
qed

theorem truncation_at_cap_witness:
  "render_entries demo_env 0 [Yield dir_x, Yield dir_long, Yield file_f] False
       (initial_state demo_env (Path ''/a'')) =
     Some (Inr \<lparr>body_top = body_top (initial_state demo_env (Path ''/a'')) @ truncated_notice 3,
                index_file = [entry_row demo_env dir_x (- 1, ''&mdash;'', [], ''-''),
                              entry_row demo_env dir_long (- 1, ''&mdash;'', [], ''-'')],
                entry_count = 2,
                printed = []\<rparr>)"
  using truncation_at_cap [of 0 demo_env "[dir_x]" dir_long "(- 1, ''&mdash;'', [], ''-'')"
      "[Yield file_f]" False "Path ''/a''"] row_dir_long_length
  by (simp add: rows_of_Cons failures_of_Cons counted_Cons counted_dir_x inspect_dir_x
      counted_dir_long inspect_dir_long tell_def row_dir_x_length numeral_3_eq_3
      numeral_2_eq_2 initial_state_def)

subsection \<open>The generated file is not listed\<close>

lemma render_entries_index_dropped:
  "render_entries env off (filter (\<lambda>i. \<not> is_index_item i) items) fin st =
   render_entries env off items fin st"
proof (induction items arbitrary: st)
  case Nil
  show ?case by simp
next
  case (Cons i items)
  show ?case
  proof (cases i)
    case (Raise e)
    then show ?thesis by (simp add: is_index_item_def)
  next
    case (Yield p)
    then show ?thesis
      using Cons.IH by (simp add: is_index_item_def Let_def split: sum.splits)
  qed
qed

lemma row_from_Cons: "row_from env items row \<Longrightarrow> row_from env (i # items) row"
  by (auto simp: row_from_def)

lemma render_entries_rows:
  assumes "render_entries env off items fin st = Some (Inr st')"
    and "row \<in> set (index_file st')"
  shows "row \<in> set (index_file st) \<or> row_from env items row"
  using assms
proof (induction items arbitrary: st)
  case Nil
  then show ?case by (simp split: if_splits)
next
  case (Cons i items)
  show ?case
  proof (cases i)
    case (Raise e)
    with Cons.prems show ?thesis by simp
  next
    case (Yield p)
    show ?thesis
    proof (cases "lower (name p) = DEFAULT_OUTPUT_FILE")
      case True
      with Cons.prems Yield have "render_entries env off items fin st = Some (Inr st')" by simp
      from Cons.IH [OF this Cons.prems(2)] show ?thesis by (auto intro: row_from_Cons)
    next
      case False
      let ?st1 = "st\<lparr>entry_count := entry_count st + 1\<rparr>"
      show ?thesis
      proof (cases "int (entry_count ?st1) < off")
        case True
        with Cons.prems Yield False
        have "render_entries env off items fin ?st1 = Some (Inr st')" by (simp add: Let_def)
        from Cons.IH [OF this Cons.prems(2)] show ?thesis by (auto intro: row_from_Cons)
      next
        case nlt: False
        show ?thesis
        proof (cases "inspect_entry env p")
          case (Inl err)
          let ?st2 = "?st1\<lparr>printed := printed ?st1 @ [(err, p)]\<rparr>"
          from Cons.prems Yield False nlt Inl
          have "render_entries env off items fin ?st2 = Some (Inr st')" by (simp add: Let_def)
          from Cons.IH [OF this Cons.prems(2)] show ?thesis by (auto intro: row_from_Cons)
        next
          case (Inr info)
          let ?st2 = "?st1\<lparr>index_file := index_file ?st1 @ [entry_row env p info]\<rparr>"
          have here: "row_from env (i # items) (entry_row env p info)"
            unfolding row_from_def using Yield False Inr
            by (intro exI [of _ p] exI [of _ info]) simp
          show ?thesis
          proof (cases "1000000 < tell (index_file ?st2)")
            case True
            with Cons.prems Yield False nlt Inr
            have "st' = ?st2\<lparr>body_top := body_top ?st2 @ truncated_notice (entry_count ?st2 + 1)\<rparr>"
              by (simp add: Let_def)
            with Cons.prems(2) here show ?thesis by auto
          next
            case nt: False
            with Cons.prems Yield False nlt Inr
            have "render_entries env off items fin ?st2 = Some (Inr st')" by (simp add: Let_def)
            from Cons.IH [OF this Cons.prems(2)] here show ?thesis
              by (auto intro: row_from_Cons)
          qed
        qed
      qed
    qed
  qed
qed

text \<open>
  C8. For every enumeration result, offset and directory, when the renderer returns, every
  row of the document is the row of an entry of the enumeration whose lower-cased name is
  not \<^verbatim>\<open>index.html\<close>; and the renderer's result is the one it gives for the enumeration
  without its entries named \<^verbatim>\<open>index.html\<close> in any letter case.
\<close>

theorem index_html_never_listed:
  assumes "render_entries env off items fin (initial_state env p) = Some (Inr st')"
    and "row \<in> set (index_file st')"
  shows "(\<exists>e info. Yield e \<in> set items \<and> lower (name e) \<noteq> DEFAULT_OUTPUT_FILE
            \<and> inspect_entry env e = Inr info \<and> row = entry_row env e info)
         \<and> render_entries env off (filter (\<lambda>i. \<not> is_index_item i) items) fin
               (initial_state env p) = Some (Inr st')"
  using render_entries_rows [OF assms] assms(1)
  by (simp add: row_from_def render_entries_index_dropped)

theorem index_html_never_listed_witness:
  "render_entries demo_env 0 [Yield file_index, Yield dir_x] True
       (initial_state demo_env (Path ''/a'')) =
     Some (Inr ((initial_state demo_env (Path ''/a''))
       \<lparr>entry_count := 1, index_file := [entry_row demo_env dir_x (- 1, ''&mdash;'', [], ''-'')]\<rparr>))
   \<and> (\<exists>e info. Yield e \<in> set [Yield file_index, Yield dir_x]
         \<and> lower (name e) \<noteq> DEFAULT_OUTPUT_FILE \<and> inspect_entry demo_env e = Inr info
         \<and> entry_row demo_env dir_x (- 1, ''&mdash;'', [], ''-'') = entry_row demo_env e info)"
proof -
  have run: "render_entries demo_env 0 [Yield file_index, Yield dir_x] True
       (initial_state demo_env (Path ''/a'')) =
     Some (Inr ((initial_state demo_env (Path ''/a''))
       \<lparr>entry_count := 1, index_file := [entry_row demo_env dir_x (- 1, ''&mdash;'', [], ''-'')]\<rparr>))"
    by (simp add: index_file_index counted_dir_x inspect_dir_x Let_def tell_def row_dir_x_length)
  from index_html_never_listed [OF run, of "entry_row demo_env dir_x (- 1, ''&mdash;'', [], ''-'')"]
  show ?thesis using run by simp
qed

subsection \<open>Entries whose metadata cannot be read\<close>

text \<open>Reading the metadata fails for a file whose size overflows or whose timestamp is absent.\<close>

lemma inspect_entry_fails:
  "inspect_entry env e = Inl err \<longleftrightarrow>
     is_file e \<and> (pretty_size (size_p e) = Inl err
       \<or> (\<exists>s. pretty_size (size_p e) = Inr s) \<and> last_modified e = None \<and> err = AttributeError)"
  by (auto simp: inspect_entry_def split: sum.splits option.splits)

text \<open>
  C9. For every counted entry that the offset does not skip, if inspecting its size or
  timestamp raises, the exception is printed with the entry, no row is written for it (the
  pieces of the document are unchanged), and the loop goes on with the following entries
  from that state: the invocation does not abort. The entry has been counted.
\<close>

theorem metadata_failure_skips_entry:
  assumes "lower (name e) \<noteq> DEFAULT_OUTPUT_FILE"
    and "\<not> int (entry_count st + 1) < off"
    and "inspect_entry env e = Inl err"
  shows "render_entries env off (Yield e # rest) fin st =
         render_entries env off rest fin
           (st\<lparr>entry_count := entry_count st + 1, printed := printed st @ [(err, e)]\<rparr>)"
  using assms by (simp add: Let_def)

theorem metadata_failure_skips_entry_witness:
  "render_entries demo_env 0 [Yield file_no_time, Yield dir_x] True
       (initial_state demo_env (Path ''/a'')) =
     Some (Inr ((initial_state demo_env (Path ''/a''))
       \<lparr>entry_count := 2,
        index_file := [entry_row demo_env dir_x (- 1, ''&mdash;'', [], ''-'')],
        printed := [(AttributeError, file_no_time)]\<rparr>))"
  using metadata_failure_skips_entry [of file_no_time "initial_state demo_env (Path ''/a'')" 0
      demo_env AttributeError "[Yield dir_x]" True]
  by (simp add: counted_file_no_time inspect_file_no_time counted_dir_x inspect_dir_x Let_def
      tell_def row_dir_x_length)

section \<open>The enumerator\<close>

lemma page_items_yield:
  "page_items prefix r =
     map Yield (map S3Path_dir (CommonPrefixes r)
                @ map S3Path_file (filter (\<lambda>obj. Key obj \<noteq> prefix) (Contents r)))"
  by (simp add: page_items_def)

lemma s3_pages_0:
  "s3_pages 0 s3_conn bucket_name prefix last_result =
     (if (case last_result of None \<Rightarrow> False | Some r \<Rightarrow> \<not> IsTruncated r) then ([], True)
      else ([], False))"
  by (simp add: s3_pages.simps)

lemma s3_pages_Suc:
  "s3_pages (Suc n) s3_conn bucket_name prefix last_result =
     (if (case last_result of None \<Rightarrow> False | Some r \<Rightarrow> \<not> IsTruncated r) then ([], True)
      else (case s3_conn bucket_name prefix ''/'' (continuation_key last_result) of
              Inl e \<Rightarrow> ([Raise e], True)
            | Inr r \<Rightarrow> (page_items prefix r @ fst (s3_pages n s3_conn bucket_name prefix (Some r)),
                        snd (s3_pages n s3_conn bucket_name prefix (Some r)))))"
  by (subst s3_pages.simps) (simp add: case_prod_beta split: sum.splits)


lemma yielded_map_Yield [simp]: "yielded (map Yield es @ [Raise e]) = es"
  by (induction es) (simp_all add: yielded_def)

lemma process_dir_returns:
  assumes "snd (s3_list_dir fuel s3_conn bucket_name (path_str p))"
  shows "process_dir env fuel s3_conn bucket_name p off \<noteq> None"
proof -
  have "render_entries env off (fst (s3_list_dir fuel s3_conn bucket_name (path_str p))) True
          (initial_state env p) \<noteq> None"
    by (rule render_entries_total)
  with assms show ?thesis
    by (auto simp: process_dir_def Let_def split: option.splits sum.splits)
qed

subsection \<open>The example stores\<close>

lemma name_dir_y: "name dir_y = ''y''"
  by (simp add: dir_y_def S3Path_dir_def lstrip_def Path_def path_name_def startswith_def)

lemma counted_dir_y: "lower (name dir_y) \<noteq> DEFAULT_OUTPUT_FILE"
  by (simp add: name_dir_y lower_def lower_char_def DEFAULT_OUTPUT_FILE_def)

lemma inspect_dir_y: "inspect_entry demo_env dir_y = Inr (- 1, ''&mdash;'', [], ''-'')"
  by (simp add: inspect_entry_def is_file_def dir_y_def S3Path_dir_def)

lemma type_path_dir_y: "entry_type_path demo_env dir_y = (''folder'', ''y/'')"
  by (simp add: entry_type_path_def is_symlink_def name_dir_y join_empty_def endswith_def
        demo_env_def)
     (simp add: dir_y_def S3Path_dir_def)

lemma row_dir_y_length: "length (entry_row demo_env dir_y (- 1, ''&mdash;'', [], ''-'')) = 473"
  by (simp add: entry_row_length type_path_dir_y quote_def quote_char_def always_safe_def
        name_dir_y str_int_def digits10.simps)

lemma demo_rows:
  "rows_of demo_env [dir_x, dir_y, file_f] =
     [entry_row demo_env dir_x (- 1, ''&mdash;'', [], ''-''),
      entry_row demo_env dir_y (- 1, ''&mdash;'', [], ''-''),
      entry_row demo_env file_f
        (2048, ''2 KB'', ''2021-06-23T23:29:59+00:00'', ''2021-06-23T23:29:59+00:00'')]"
  by (simp add: rows_of_Cons counted_dir_x counted_dir_y counted_file_f inspect_dir_x
        inspect_dir_y inspect_file_f)

lemma demo_rows_fit: "tell (rows_of demo_env [dir_x, dir_y, file_f]) \<le> 1000000"
  by (simp add: demo_rows tell_def row_dir_x_length row_dir_y_length row_file_f_length)

lemma demo_counted: "counted [dir_x, dir_y, file_f] = [dir_x, dir_y, file_f]"
  by (simp add: counted_Cons counted_dir_x counted_dir_y counted_file_f)

lemma demo_failures: "failures_of demo_env [dir_x, dir_y, file_f] = []"
  by (simp add: failures_of_Cons counted_dir_x counted_dir_y counted_file_f inspect_dir_x
        inspect_dir_y inspect_file_f)

lemma demo_listing:
  "s3_list_dir (Suc n) demo_store ''art-srv-enterprise'' ''/a'' =
     (map Yield [dir_x, dir_y, file_f], True)"
  by (simp add: s3_list_dir_def s3_prefix_def lstrip_def rstrip_def s3_pages_Suc s3_pages.simps [of n]
        continuation_key_def demo_store_def page_items_yield dir_x_def dir_y_def file_f_def)

lemma demo_process_dir:
  "process_dir demo_env (Suc n) demo_store ''art-srv-enterprise'' (Path ''/a'') 0 =
     Some (Inr (body_top (initial_state demo_env (Path ''/a''))
                  @ concat (rows_of demo_env [dir_x, dir_y, file_f] @ [page_foot]), 3))"
proof -
  have p: "path_str (Path ''/a'') = ''/a''"
    by (simp add: Path_def path_str_def lstrip_def startswith_def join_def)
  have "render_entries demo_env 0 (map Yield [dir_x, dir_y, file_f]) True
          (initial_state demo_env (Path ''/a'')) =
        Some (Inr ((initial_state demo_env (Path ''/a''))
          \<lparr>entry_count := length (counted [dir_x, dir_y, file_f]),
           index_file := rows_of demo_env [dir_x, dir_y, file_f],
           printed := failures_of demo_env [dir_x, dir_y, file_f]\<rparr>))"
    by (rule render_entries_finished) (simp_all add: demo_rows_fit)
  then show ?thesis
    by (simp add: process_dir_def p demo_listing demo_counted del: map_append list.map)
qed

section \<open>The request handler\<close>

lemma get_uri_demo [simp]: "get_uri (demo_request u qs) = u"
  by (simp add: get_uri_def demo_request_def)

lemma get_querystring_demo [simp]: "get_querystring (demo_request u qs) = qs"
  by (simp add: get_querystring_def demo_request_def)

lemma no_entry_parameter: "entry_offset_of demo_env (parse_qs (unquote demo_env) []) = Inr 0"
  by (simp add: entry_offset_of_def parse_qs_def parse_qsl_def)

lemma entry_abc:
  "parse_qs (unquote demo_env) ''entry=abc'' ''entry'' = Some [''abc'']"
  by (simp add: parse_qs_def parse_qsl_def partition_eq_def unquote_plus_def demo_env_def)

lemma py_int_abc: "py_int (int_max_str_digits demo_env) ''abc'' = Inl ValueError"
  by (simp add: py_int_def is_space_def is_digit_def)


subsection \<open>The offset parameter\<close>

lemma digit_not_space: "is_digit c \<Longrightarrow> \<not> is_space c"
  by (auto simp: is_digit_def is_space_def)

lemma digit_groups_digits:
  assumes "ds \<noteq> []" and "\<forall>c \<in> set ds. is_digit c"
  shows "digit_groups ds = Some ds"
  using assms
proof (induction ds rule: digit_groups.induct)
  case 1
  then show ?case by simp
next
  case (2 d)
  then show ?case by simp
next
  case (3 d u cs)
  then have "u \<noteq> CHR ''_''" by (auto simp: is_digit_def)
  with 3 show ?case by simp
qed

text \<open>Every non-empty string of digits (within the digit limit) is accepted, with its value.\<close>

lemma py_int_digits:
  assumes "ds \<noteq> []" and "\<forall>c \<in> set ds. is_digit c" and "m = 0 \<or> length ds \<le> m"
  shows "py_int m ds = Inr (int (digits_value ds))"
proof -
  obtain c cs where ds: "ds = c # cs" using assms(1) by (cases ds) auto
  have last: "\<not> is_space (last ds)" using assms(1,2) by (simp add: digit_not_space)
  have "dropWhile is_space ds = ds"
    using assms(2) ds by (simp add: digit_not_space)
  moreover have "dropWhile is_space (rev ds) = rev ds"
    using last assms(1) by (cases "rev ds") (auto simp: last_rev dest: arg_cong [where f = hd])
  moreover have "c \<noteq> CHR ''-''" "c \<noteq> CHR ''+''"
    using assms(2) ds by (auto simp: is_digit_def)
  ultimately show ?thesis
    using assms(3) digit_groups_digits [OF assms(1,2)] by (auto simp: py_int_def ds)
qed



subsection \<open>Path traversal\<close>

lemma unquote_encoded_dots: "unquote demo_env ''/foo/%2E%2E/bar'' = ''/foo/../bar''"
  by (simp add: demo_env_def is_hex_def hexval_def char_of_def bit_0)

lemma listing_needs_store:
  "s3_list_dir 0 demo_store ''art-srv-enterprise'' d = ([], False)"
  by (simp add: s3_list_dir_def s3_pages_0)

text \<open>Neither the metadata nor the row of an entry depends on its full key.\<close>

lemma inspect_entry_absolute [simp]:
  "inspect_entry env (e\<lparr>absolute := a\<rparr>) = inspect_entry env e"
  by (simp add: inspect_entry_def is_file_def split: sum.splits option.splits)

lemma entry_row_absolute [simp]:
  "entry_row env (e\<lparr>absolute := a\<rparr>) info = entry_row env e info"
  by (simp add: entry_row_def entry_type_path_def is_file_def is_symlink_def)

lemma bar_listing:
  "s3_list_dir (Suc n) demo_store ''art-srv-enterprise'' ''/foo/../bar'' =
     (map Yield [dir_x\<lparr>absolute := ''foo/../bar/x/''\<rparr>, dir_y\<lparr>absolute := ''foo/../bar/y/''\<rparr>,
                 file_f\<lparr>absolute := ''foo/../bar/f.txt''\<rparr>], True)"
  by (simp add: s3_list_dir_def s3_prefix_def lstrip_def rstrip_def s3_pages_Suc s3_pages.simps [of n]
        continuation_key_def demo_store_def page_items_yield dir_x_def dir_y_def file_f_def
        S3Path_dir_def S3Path_file_def Path_def path_name_def startswith_def)

lemma bar_process_dir:
  "process_dir demo_env (Suc n) demo_store ''art-srv-enterprise'' (Path ''/foo/../bar'') 0 =
     Some (Inr (body_top (initial_state demo_env (Path ''/foo/../bar''))
                  @ concat (rows_of demo_env [dir_x, dir_y, file_f] @ [page_foot]), 3))"
proof -
  let ?es = "[dir_x\<lparr>absolute := ''foo/../bar/x/''\<rparr>, dir_y\<lparr>absolute := ''foo/../bar/y/''\<rparr>,
              file_f\<lparr>absolute := ''foo/../bar/f.txt''\<rparr>]"
  have p: "path_str (Path ''/foo/../bar'') = ''/foo/../bar''"
    by (simp add: Path_def path_str_def lstrip_def startswith_def join_def)
  have rows: "rows_of demo_env ?es = rows_of demo_env [dir_x, dir_y, file_f]"
    by (simp add: rows_of_Cons counted_dir_x counted_dir_y counted_file_f inspect_dir_x
        inspect_dir_y inspect_file_f)
  have counted: "length (counted ?es) = 3"
    by (simp add: counted_Cons counted_dir_x counted_dir_y counted_file_f)
  have failures: "failures_of demo_env ?es = []"
    by (simp add: failures_of_Cons counted_dir_x counted_dir_y counted_file_f inspect_dir_x
        inspect_dir_y inspect_file_f)
  have "render_entries demo_env 0 (map Yield ?es) True
          (initial_state demo_env (Path ''/foo/../bar'')) =
        Some (Inr ((initial_state demo_env (Path ''/foo/../bar''))
          \<lparr>entry_count := length (counted ?es), index_file := rows_of demo_env ?es,
           printed := failures_of demo_env ?es\<rparr>))"
    by (rule render_entries_finished) (simp_all add: rows demo_rows_fit)
  then show ?thesis
    unfolding rows counted failures
    by (simp add: process_dir_def p bar_listing del: map_append list.map)
qed

text \<open>
  C1 (as stated, refuted). The URI \<^verbatim>\<open>/foo/%2E%2E/bar\<close> decodes to \<^verbatim>\<open>/foo/../bar\<close>, which contains
  \<^verbatim>\<open>..\<close>; the handler tests the URI as received, finds no \<^verbatim>\<open>..\<close>, and goes on to list the
  directory: without a store call it does not return, and with one it returns a listing
  of \<^verbatim>\<open>foo/../bar/\<close> with status 200, not the request. And the request with URI
  \<^verbatim>\<open>/foo/../bar\<close> and query string \<^verbatim>\<open>entry=abc\<close> is not passed through: the offset is parsed
  before the URI is tested, and the handler raises.
\<close>

theorem encoded_dots_listed_counterexample:
  "str_in ''..'' (unquote demo_env ''/foo/%2E%2E/bar'')
   \<and> lambda_handler demo_env 0 demo_store [demo_request ''/foo/%2E%2E/bar'' []] = None
   \<and> lambda_handler demo_env 1 demo_store [demo_request ''/foo/%2E%2E/bar'' []] =
       Some (Inr (Response (ok_response
         (body_top (initial_state demo_env (Path ''/foo/../bar''))
            @ concat (rows_of demo_env [dir_x, dir_y, file_f] @ [page_foot])))))
   \<and> lambda_handler demo_env 0 demo_store [demo_request ''/foo/../bar'' ''entry=abc'']
       = Some (Inl ValueError)"
proof -
  have "str_in ''..'' (unquote demo_env ''/foo/%2E%2E/bar'')"
    by (simp add: unquote_encoded_dots startswith_def)
  moreover have raw: "\<not> str_in ''..'' ''/foo/%2E%2E/bar''"
    by (simp add: startswith_def)
  then have "lambda_handler demo_env 0 demo_store [demo_request ''/foo/%2E%2E/bar'' []] = None"
    by (simp add: lambda_handler_def no_entry_parameter process_dir_def listing_needs_store)
  moreover have key: "derive_dir_key ''/foo/../bar'' = ''/foo/../bar''"
    by (simp add: derive_dir_key_def endswith_def)
  have "lambda_handler demo_env 1 demo_store [demo_request ''/foo/%2E%2E/bar'' []] =
       Some (Inr (Response (ok_response
         (body_top (initial_state demo_env (Path ''/foo/../bar''))
            @ concat (rows_of demo_env [dir_x, dir_y, file_f] @ [page_foot])))))"
    using raw bar_process_dir [of 0]
    by (simp add: lambda_handler_def no_entry_parameter unquote_encoded_dots key)
  moreover have "lambda_handler demo_env 0 demo_store [demo_request ''/foo/../bar'' ''entry=abc'']
       = Some (Inl ValueError)"
    by (simp add: lambda_handler_def entry_offset_of_def entry_abc py_int_abc)
  ultimately show ?thesis by simp
qed

text \<open>
  C1 (amended). For every inbound request whose URI as received, before percent-decoding,
  contains \<^verbatim>\<open>..\<close>, and whose \<^verbatim>\<open>entry\<close> parameter, if there is one, parses as an integer, the
  handler returns the original request unmodified and issues no object-store call (the
  result is the same for every store, with no fuel at all); in particular the request with
  URI \<^verbatim>\<open>/foo/../bar\<close> is returned unmodified.
\<close>

theorem dotdot_passthrough:
  assumes "str_in ''..'' (get_uri request)"
    and "entry_offset_of env (parse_qs (unquote env) (get_querystring request)) = Inr off"
  shows "lambda_handler env fuel s3_conn (request # others) = Some (Inr (Passthrough request))"
  using assms by (simp add: lambda_handler_def Let_def)

theorem dotdot_passthrough_witness:
  "lambda_handler demo_env 0 failing_store [demo_request ''/foo/../bar'' []] =
     Some (Inr (Passthrough (demo_request ''/foo/../bar'' [])))"
  using dotdot_passthrough [of "demo_request ''/foo/../bar'' []" demo_env 0 0 failing_store "[]"]
  by (simp add: no_entry_parameter startswith_def)

subsection \<open>The directory key\<close>

lemma endswith_append: "endswith u s \<Longrightarrow> \<exists>d. u = d @ s"
  by (metis append_take_drop_id endswith_def)

text \<open>
  C7 (as stated, refuted). Of \<^verbatim>\<open>/a//\<close> the handler strips both trailing separators, not one;
  of \<^verbatim>\<open>/a/myindex.html\<close>, which ends in \<^verbatim>\<open>index.html\<close>, it strips the whole last segment, and
  not that suffix and a separator before it.
\<close>

theorem dir_key_counterexample:
  "derive_dir_key ''/a//'' = ''/a'' \<and> spec_dir_key ''/a//'' = ''/a/''
   \<and> derive_dir_key ''/a/myindex.html'' = ''/a'' \<and> spec_dir_key ''/a/myindex.html'' = ''/a/my''"
  by (simp add: derive_dir_key_def spec_dir_key_def endswith_def rstrip_def rsplit1_head_def)

text \<open>
  C7 (amended). For every decoded URI, the handler derives the directory key as follows: if
  the URI ends in \<^verbatim>\<open>/\<close>, the key is the URI without all its trailing separators; else if
  the last segment of the URI is \<^verbatim>\<open>index.html\<close> (the URI ends in \<^verbatim>\<open>/index.html\<close>), that
  segment and the separator before it are stripped; else if the URI does not end in
  \<^verbatim>\<open>index.html\<close>, the URI is used verbatim. So the URIs \<^verbatim>\<open>/a/b/\<close>, \<^verbatim>\<open>/a/b/index.html\<close> and
  \<^verbatim>\<open>/a/b\<close> all yield the directory path \<^verbatim>\<open>a/b\<close>, listed under the store prefix \<^verbatim>\<open>a/b/\<close>.
\<close>

theorem dir_key_derivation:
  "(endswith u ''/'' \<longrightarrow> derive_dir_key u = rstrip CHR ''/'' u)
   \<and> (\<not> endswith u ''/'' \<and> endswith u ''/index.html'' \<longrightarrow> derive_dir_key u @ ''/index.html'' = u)
   \<and> (\<not> endswith u ''/'' \<and> \<not> endswith u ''index.html'' \<longrightarrow> derive_dir_key u = u)
   \<and> dir_path_of ''/a/b/'' = ''a/b'' \<and> dir_path_of ''/a/b/index.html'' = ''a/b''
   \<and> dir_path_of ''/a/b'' = ''a/b'' \<and> s3_prefix (path_str (Path (derive_dir_key ''/a/b/''))) = ''a/b/''"
proof -
  have "derive_dir_key u @ ''/index.html'' = u"
    if "\<not> endswith u ''/''" and "endswith u ''/index.html''"
  proof -
    from that(2) obtain d where u: "u = d @ ''/index.html''"
      using endswith_append by blast
    then have "endswith u ''index.html''"
      by (simp add: endswith_def)
    with that(1) have "derive_dir_key u = rsplit1_head CHR ''/'' u"
      by (simp add: derive_dir_key_def)
    also have "\<dots> = d"
      by (simp add: u rsplit1_head_def)
    finally show ?thesis by (simp add: u)
  qed
  moreover have "dir_path_of ''/a/b/'' = ''a/b'' \<and> dir_path_of ''/a/b/index.html'' = ''a/b''
      \<and> dir_path_of ''/a/b'' = ''a/b''
      \<and> s3_prefix (path_str (Path (derive_dir_key ''/a/b/''))) = ''a/b/''"
    by (simp add: dir_path_of_def s3_prefix_def derive_dir_key_def endswith_def rstrip_def
        rsplit1_head_def Path_def path_str_def lstrip_def startswith_def join_def)
  ultimately show ?thesis
    by (simp add: derive_dir_key_def)
qed

theorem dir_key_derivation_witness:
  "derive_dir_key ''/a/b/'' = ''/a/b'' \<and> derive_dir_key ''/a/b/index.html'' = ''/a/b''
   \<and> derive_dir_key ''/a/b'' = ''/a/b''"
  using dir_key_derivation [of "''/a/b/''"] dir_key_derivation [of "''/a/b/index.html''"]
    dir_key_derivation [of "''/a/b''"]
  by (simp add: endswith_def rstrip_def)

subsection \<open>The response\<close>

text \<open>
  C4. For every request that reaches the listing (its \<^verbatim>\<open>entry\<close> parameter, if any, parses and
  its URI passes the path check), when the renderer returns a document and a count: if the
  count is zero the handler returns the original request, and otherwise it returns the
  response with status \<^verbatim>\<open>200\<close>, description \<^verbatim>\<open>OK\<close>, the headers \<^verbatim>\<open>Cache-Control: max-age=0\<close> and
  \<^verbatim>\<open>Content-Type: text/html\<close>, and the document as body. The renderer returns whenever the
  enumeration ends within the fuel (\<open>process_dir_returns\<close>).
\<close>

theorem handler_decides_response:
  assumes "\<not> str_in ''..'' (get_uri request)"
    and "entry_offset_of env (parse_qs (unquote env) (get_querystring request)) = Inr off"
    and "process_dir env fuel s3_conn ''art-srv-enterprise''
           (Path (derive_dir_key (unquote env (get_uri request)))) off = Some (Inr (content, n))"
  shows "lambda_handler env fuel s3_conn (request # others) =
           Some (Inr (if n = 0 then Passthrough request
                      else Response \<lparr>status = ''200'', statusDescription = ''OK'',
                             headers = [(''cache-control'', [(''Cache-Control'', ''max-age=0'')]),
                                        (''content-type'', [(''Content-Type'', ''text/html'')])],
                             body = content\<rparr>))"
  using assms by (simp add: lambda_handler_def Let_def ok_response_def)

lemma demo_dir_key: "derive_dir_key (unquote demo_env ''/a/'') = ''/a''"
  by (simp add: demo_env_def derive_dir_key_def endswith_def rstrip_def)

lemma empty_process_dir:
  "process_dir demo_env (Suc n) empty_store ''art-srv-enterprise'' (Path ''/a'') 0 =
     Some (Inr (body_top (initial_state demo_env (Path ''/a'')) @ page_foot, 0))"
  by (simp add: process_dir_def s3_list_dir_def s3_pages_Suc s3_pages.simps [of n]
      empty_store_def continuation_key_def page_items_def)

theorem handler_decides_response_witness:
  "lambda_handler demo_env 1 demo_store [demo_request ''/a/'' []] =
     Some (Inr (Response \<lparr>status = ''200'', statusDescription = ''OK'',
                  headers = [(''cache-control'', [(''Cache-Control'', ''max-age=0'')]),
                             (''content-type'', [(''Content-Type'', ''text/html'')])],
                  body = body_top (initial_state demo_env (Path ''/a''))
                           @ concat (rows_of demo_env [dir_x, dir_y, file_f] @ [page_foot])\<rparr>))
   \<and> lambda_handler demo_env 1 empty_store [demo_request ''/a/'' []] =
       Some (Inr (Passthrough (demo_request ''/a/'' [])))"
  using handler_decides_response [of "demo_request ''/a/'' []" demo_env 0 1 demo_store
      "body_top (initial_state demo_env (Path ''/a''))
         @ concat (rows_of demo_env [dir_x, dir_y, file_f] @ [page_foot])" 3 "[]"]
    handler_decides_response [of "demo_request ''/a/'' []" demo_env 0 1 empty_store
      "body_top (initial_state demo_env (Path ''/a'')) @ page_foot" 0 "[]"]
    demo_process_dir [of 0] empty_process_dir [of 0]
  by (simp add: no_entry_parameter demo_dir_key startswith_def)

subsection \<open>A failing store call\<close>




end
